theory Spec2Isabelle
  imports Main "HOL-Library.Sublist"
begin

section \<open>Python strings\<close>

text \<open>
  A Python \<open>str\<close> is a sequence of Unicode code points, so a string is a list of
  code points here.  \<open>u\<close> reads an ASCII literal as such a string.  Python's
  \<open>sub in s\<close> is \<^const>\<open>sublist\<close>, \<open>s.startswith(p)\<close> is \<^const>\<open>prefix\<close>.
\<close>

type_synonym pystr = "nat list"

definition u :: "string \<Rightarrow> pystr" where
  "u s = map of_char s"

text \<open>
  The characters \<open>str.strip()\<close> removes and the regular expression class \<open>\s\<close>
  matches on a \<open>str\<close>: the interpreter's Unicode whitespace.
\<close>

definition isspace :: "nat \<Rightarrow> bool" where
  "isspace c \<longleftrightarrow>
     (9 \<le> c \<and> c \<le> 13) \<or> (28 \<le> c \<and> c \<le> 32) \<or> c = 133 \<or> c = 160 \<or> c = 5760 \<or>
     (8192 \<le> c \<and> c \<le> 8202) \<or> c = 8232 \<or> c = 8233 \<or> c = 8239 \<or> c = 8287 \<or> c = 12288"

definition lstrip :: "pystr \<Rightarrow> pystr" where
  "lstrip s = dropWhile isspace s"

definition rstrip :: "pystr \<Rightarrow> pystr" where
  "rstrip s = rev (dropWhile isspace (rev s))"

definition strip :: "pystr \<Rightarrow> pystr" where
  "strip s = rstrip (lstrip s)"

text \<open>\<open>s.strip(chars)\<close> for a one-character argument.\<close>

definition strip_char :: "'a \<Rightarrow> 'a list \<Rightarrow> 'a list" where
  "strip_char c s = rev (dropWhile (\<lambda>x. x = c) (rev (dropWhile (\<lambda>x. x = c) s)))"

text \<open>
  \<open>s.split(sep)\<close> for a non-empty separator (every separator of the program is a
  non-empty literal): the occurrences are found from the left and do not overlap.  The
  result is never empty, so the last alternative of the \<open>case\<close> is never taken.
\<close>

function split :: "'a list \<Rightarrow> 'a list \<Rightarrow> 'a list list" where
  "split sep [] = [[]]"
| "split sep (c # cs) =
     (if sep \<noteq> [] \<and> prefix sep (c # cs) then [] # split sep (drop (length sep) (c # cs))
      else (case split sep cs of p # ps \<Rightarrow> (c # p) # ps | [] \<Rightarrow> [[c]]))"
  by pat_completeness auto
termination
  by (relation "measure (\<lambda>(sep, s). length s)") (auto simp: neq_Nil_conv)

text \<open>\<open>s.replace(old, new)\<close> for a non-empty \<open>old\<close>, also left to right.\<close>

function replace :: "'a list \<Rightarrow> 'a list \<Rightarrow> 'a list \<Rightarrow> 'a list" where
  "replace old new [] = []"
| "replace old new (c # cs) =
     (if old \<noteq> [] \<and> prefix old (c # cs) then new @ replace old new (drop (length old) (c # cs))
      else c # replace old new cs)"
  by pat_completeness auto
termination
  by (relation "measure (\<lambda>(old, new, s). length s)") (auto simp: neq_Nil_conv)

section \<open>SQL Text Normalizer\<close>

text \<open>
  The clean-up of \<open>sql_query\<close> in \<open>process_request_async\<close>: the text after the last
  closing thinking marker, trimmed, and the fence removal when the trimmed text starts
  with a fence.
\<close>

definition thinking_close :: pystr where
  "thinking_close = u ''</thinking_process>''"

definition thinking_open :: pystr where
  "thinking_open = u ''<thinking_process>''"

definition fence :: pystr where
  "fence = u ''```''"

definition fence_sql :: pystr where
  "fence_sql = u ''```sql''"

definition sql_normalizer :: "pystr \<Rightarrow> pystr" where
  "sql_normalizer sql_query =
     (let q1 = (if sublist thinking_close sql_query
                then strip (last (split thinking_close sql_query)) else sql_query);
          q2 = strip q1
      in if prefix fence_sql q2 then strip (replace fence [] (replace fence_sql [] q2))
         else if prefix fence q2 then strip (replace fence [] q2)
         else q2)"

section \<open>Exceptions and values\<close>

text \<open>
  A raised exception is a value.  The handlers of the program are all
  \<open>except Exception\<close>, and each of them formats the exception it caught, so what
  matters of an exception is whether its class derives from \<open>Exception\<close> and what
  \<open>str(e)\<close> does: it returns a string, or the \<open>__str__\<close> of the class raises an
  exception in its turn (the class may come from an executed charting script).
  \<open>BaseExceptionOnly\<close> stands for the classes outside \<open>Exception\<close> (\<open>SystemExit\<close>,
  \<open>KeyboardInterrupt\<close>, \<open>asyncio.CancelledError\<close>, \<open>GeneratorExit\<close>).
\<close>

datatype exn = Exception "exn + pystr" | BaseExceptionOnly "exn + pystr"

fun is_Exception :: "exn \<Rightarrow> bool" where
  "is_Exception (Exception s) = True"
| "is_Exception (BaseExceptionOnly s) = False"

fun str_exn :: "exn \<Rightarrow> exn + pystr" where
  "str_exn (Exception s) = s"
| "str_exn (BaseExceptionOnly s) = s"

text \<open>
  \<open>try: body except Exception as e: handler(e)\<close>: an exception outside \<open>Exception\<close>
  passes through.
\<close>

definition try_except :: "exn + 'a \<Rightarrow> (exn \<Rightarrow> exn + 'a) \<Rightarrow> exn + 'a" where
  "try_except body handler =
     (case body of
        Inr v \<Rightarrow> Inr v
      | Inl e \<Rightarrow> if is_Exception e then handler e else Inl e)"

text \<open>
  The values \<open>json.loads\<close> returns and the Markdown strategy builds: \<open>None\<close>, \<open>bool\<close>,
  \<open>int\<close>, \<open>float\<close> (an abstract carrier \<open>'f\<close>), \<open>str\<close>, \<open>list\<close>, and \<open>dict\<close>
  with string keys in insertion order.
\<close>

datatype 'f pyval =
    PNone
  | PBool bool
  | PInt int
  | PFloat 'f
  | PStr pystr
  | PList "'f pyval list"
  | PDict "(pystr \<times> 'f pyval) list"

text \<open>\<open>d[k] = v\<close>: an existing key keeps its place, a new one goes last.\<close>

fun dict_set :: "'k \<Rightarrow> 'v \<Rightarrow> ('k \<times> 'v) list \<Rightarrow> ('k \<times> 'v) list" where
  "dict_set k v [] = [(k, v)]"
| "dict_set k v ((k', v') # d) = (if k' = k then (k, v) # d else (k', v') # dict_set k v d)"

fun type_name :: "'f pyval \<Rightarrow> pystr" where
  "type_name PNone = u ''NoneType''"
| "type_name (PBool b) = u ''bool''"
| "type_name (PInt i) = u ''int''"
| "type_name (PFloat f) = u ''float''"
| "type_name (PStr s) = u ''str''"
| "type_name (PList l) = u ''list''"
| "type_name (PDict d) = u ''dict''"

text \<open>
  \<open>v.get(key, default)\<close>: only a \<open>dict\<close> has the method; on any other value the
  attribute lookup raises \<open>AttributeError\<close>.
\<close>

definition py_get :: "'f pyval \<Rightarrow> pystr \<Rightarrow> 'f pyval \<Rightarrow> exn + 'f pyval" where
  "py_get v key dflt =
     (case v of
        PDict d \<Rightarrow> Inr (case map_of d key of Some x \<Rightarrow> x | None \<Rightarrow> dflt)
      | _ \<Rightarrow> Inl (Exception (Inr ([39] @ type_name v @ [39] @ u '' object has no attribute ''
                  @ [39] @ u ''get'' @ [39]))))"

text \<open>
  A table is a \<open>pandas.DataFrame\<close>, kept as its column labels and its rows;
  \<open>df.empty\<close> holds when an axis has length 0, and \<open>pd.DataFrame()\<close> has neither
  columns nor rows.
\<close>

datatype 'f table = DataFrame (columns: "pystr list") (rows: "'f pyval list list")

definition df_empty :: "'f table \<Rightarrow> bool" where
  "df_empty df \<longleftrightarrow> columns df = [] \<or> rows df = []"

definition new_DataFrame :: "'f table" where
  "new_DataFrame = DataFrame [] []"

section \<open>The collaborators\<close>

text \<open>
  What the program calls and does not define: the agent run, which yields the pipeline
  state (a mapping from keys to strings) or raises; the library functions
  \<open>json.loads\<close>, \<open>float\<close>, \<open>bool\<close> of a float, \<open>str\<close> of a value, \<open>str.lower\<close> and
  the \<open>DataFrame\<close> constructor; and \<open>exec\<close> of a charting script in the namespace
  built from the table, followed by the lookup of \<open>chart\<close> in that namespace.  Every
  result below holds for all of them.
\<close>

record ('f, 'c) env =
  run_bi_pipeline_async :: "pystr \<Rightarrow> exn + (pystr \<rightharpoonup> pystr)"
  json_loads :: "pystr \<Rightarrow> exn + 'f pyval"
  float_of_str :: "pystr \<Rightarrow> 'f option"
  float_bool :: "'f \<Rightarrow> bool"
  py_str :: "'f pyval \<Rightarrow> pystr"
  str_lower :: "pystr \<Rightarrow> pystr"
  pd_DataFrame :: "'f pyval \<Rightarrow> exn + 'f table"
  exec_chart :: "pystr \<Rightarrow> 'f table \<Rightarrow> exn + 'c option"

text \<open>\<open>bool(v)\<close>, as \<open>not v\<close> and \<open>if v\<close> take it.\<close>

fun truthy :: "('f, 'c) env \<Rightarrow> 'f pyval \<Rightarrow> bool" where
  "truthy E PNone = False"
| "truthy E (PBool b) = b"
| "truthy E (PInt i) = (i \<noteq> 0)"
| "truthy E (PFloat f) = float_bool E f"
| "truthy E (PStr s) = (s \<noteq> [])"
| "truthy E (PList l) = (l \<noteq> [])"
| "truthy E (PDict d) = (d \<noteq> [])"

text \<open>A value inside an f-string: a \<open>str\<close> is itself, anything else is its \<open>str()\<close>.\<close>

fun format_value :: "('f, 'c) env \<Rightarrow> 'f pyval \<Rightarrow> pystr" where
  "format_value E (PStr s) = s"
| "format_value E v = py_str E v"

text \<open>\<open>results.get(key, default)\<close> on the pipeline state.\<close>

definition results_get :: "(pystr \<rightharpoonup> pystr) \<Rightarrow> pystr \<Rightarrow> pystr \<Rightarrow> pystr" where
  "results_get results key dflt = (case results key of Some v \<Rightarrow> v | None \<Rightarrow> dflt)"

section \<open>Result Parser\<close>

text \<open>
  \<open>re.sub(r'^```[a-z]*\s*', '', s, flags=re.IGNORECASE)\<close>: at the start of the string
  only, the fence, the longest run of letters and then the longest run of whitespace.
  With \<open>IGNORECASE\<close> the class \<open>[a-z]\<close> matches the 52 ASCII letters and the four code
  points U+0130, U+0131, U+017F and U+212A.
\<close>

definition az_ignorecase :: "nat \<Rightarrow> bool" where
  "az_ignorecase c \<longleftrightarrow>
     (65 \<le> c \<and> c \<le> 90) \<or> (97 \<le> c \<and> c \<le> 122) \<or> c = 304 \<or> c = 305 \<or> c = 383 \<or> c = 8490"

definition sub_leading_fence :: "pystr \<Rightarrow> pystr" where
  "sub_leading_fence s =
     (if prefix fence s then dropWhile isspace (dropWhile az_ignorecase (drop 3 s)) else s)"

text \<open>
  \<open>re.sub(r'\s*```$', '', s)\<close>: \<open>$\<close> matches at the end of the string and before a
  newline that ends it, so the match is the fence that ends the string (or that precedes
  its final newline) together with the whitespace before it.
\<close>

definition sub_trailing_fence :: "pystr \<Rightarrow> pystr" where
  "sub_trailing_fence s =
     (if suffix fence s then rstrip (take (length s - 3) s)
      else if suffix (fence @ [10]) s then rstrip (take (length s - 4) s) @ [10]
      else s)"

definition clean_json :: "pystr \<Rightarrow> pystr" where
  "clean_json raw_str = sub_trailing_fence (sub_leading_fence raw_str)"

text \<open>Method 2, the Markdown table.\<close>

definition split_cells :: "pystr \<Rightarrow> pystr list" where
  "split_cells line = map strip (split (u ''|'') (strip_char 124 line))"

definition cell_value :: "('f, 'c) env \<Rightarrow> pystr \<Rightarrow> 'f pyval" where
  "cell_value E val = (case float_of_str E val of Some f \<Rightarrow> PFloat f | None \<Rightarrow> PStr val)"

definition row_dict :: "('f, 'c) env \<Rightarrow> pystr list \<Rightarrow> pystr list \<Rightarrow> (pystr \<times> 'f pyval) list" where
  "row_dict E headers vals =
     foldl (\<lambda>d (i, header).
              dict_set header (cell_value E (if i < length vals then vals ! i else [])) d)
       [] (enumerate 0 headers)"

fun table_rows :: "('f, 'c) env \<Rightarrow> pystr list \<Rightarrow> pystr list \<Rightarrow> 'f pyval list" where
  "table_rows E headers [] = []"
| "table_rows E headers (line # rest) =
     (if prefix (u '':'') line \<or> sublist (u ''---'') line then table_rows E headers rest
      else let vals = split_cells line
           in if length vals = length headers \<and> vals \<noteq> headers
              then PDict (row_dict E headers vals) # table_rows E headers rest
              else table_rows E headers rest)"

text \<open>
  \<open>None\<close> is one of the two \<open>ValueError\<close>s of the strategy; their messages are only
  printed.
\<close>

definition markdown_table :: "('f, 'c) env \<Rightarrow> pystr \<Rightarrow> 'f pyval list option" where
  "markdown_table E raw_str =
     (let lines = split [10] raw_str;
          table_lines = map strip (filter (\<lambda>line. sublist (u ''|'') line \<and> strip line \<noteq> []) lines)
      in if length table_lines \<ge> 3
         then let headers = map (replace [92, 95] (u ''_'')) (split_cells (table_lines ! 0));
                  data_list = table_rows E headers (drop 2 table_lines)
              in if data_list \<noteq> [] then Some data_list else None
         else None)"

text \<open>Method 3, the plain text taken as the error message.\<close>

definition unparsed :: "pystr \<Rightarrow> 'f pyval" where
  "unparsed raw_str =
     PDict [(u ''success'', PBool False), (u ''data'', PList []),
            (u ''error'', PStr (u ''Could not parse query results. Output: '' @ take 100 raw_str))]"

definition parsed_rows :: "'f pyval list \<Rightarrow> 'f pyval" where
  "parsed_rows data_list = PDict [(u ''success'', PBool True), (u ''data'', PList data_list)]"

definition result_parser :: "('f, 'c) env \<Rightarrow> pystr \<Rightarrow> exn + 'f pyval" where
  "result_parser E query_results_str =
     (let raw_str = strip query_results_str
      in try_except
           (case json_loads E (clean_json raw_str) of
              Inl e \<Rightarrow> Inl e
            | Inr parsed_json \<Rightarrow>
                Inr (case parsed_json of PList l \<Rightarrow> parsed_rows l | _ \<Rightarrow> parsed_json))
           (\<lambda>e_json. Inr (case markdown_table E raw_str of
                             Some data_list \<Rightarrow> parsed_rows data_list
                           | None \<Rightarrow> unparsed raw_str)))"

section \<open>Chart Synthesizer\<close>

text \<open>The clean-up of \<open>chart_spec\<close> before the guard.\<close>

definition chart_spec_clean :: "pystr \<Rightarrow> pystr" where
  "chart_spec_clean chart_spec =
     (let c0 = strip chart_spec;
          c1 = (if sublist thinking_open c0
                then let parts = split thinking_close c0
                     in if length parts > 1 then strip (last parts) else c0
                else c0)
      in strip (replace fence [] (replace (u ''```python'') [] c1)))"

definition no_valid_code :: "('f, 'c) env \<Rightarrow> pystr \<Rightarrow> bool" where
  "no_valid_code E c \<longleftrightarrow> c = [] \<or> prefix (u ''<'') c \<or> \<not> sublist (u ''import'') (str_lower E c)"

text \<open>
  The chart of a request with data: the chart object or \<open>None\<close>, or an exception that
  leaves the \<open>try\<close>, and beside it the scripts that were handed to \<open>exec\<close>.  The two
  handlers (\<open>except SyntaxError\<close>, \<open>except Exception\<close>) print the exception they
  caught, and an exception raised by that formatting leaves the handler.
\<close>

definition chart_warning :: "exn \<Rightarrow> exn + 'c option" where
  "chart_warning e = (case str_exn e of Inl e' \<Rightarrow> Inl e' | Inr msg \<Rightarrow> Inr None)"

definition chart_synthesizer ::
  "('f, 'c) env \<Rightarrow> pystr \<Rightarrow> 'f table \<Rightarrow> (exn + 'c option) \<times> pystr list" where
  "chart_synthesizer E chart_spec df =
     (if chart_spec = [] then (Inr None, [])
      else let c = chart_spec_clean chart_spec
           in if no_valid_code E c then (Inr None, [])
              else (try_except (exec_chart E c df) chart_warning, [c]))"

section \<open>Pipeline Orchestrator\<close>

text \<open>
  The four outputs of \<open>process_request_async\<close>: SQL text, table or \<open>None\<close>, chart or
  \<open>None\<close>, explanation.
\<close>

type_synonym ('f, 'c) outputs = "pystr \<times> 'f table option \<times> 'c option \<times> pystr"

definition final_insights :: "pystr \<Rightarrow> pystr \<Rightarrow> pystr" where
  "final_insights trend_text explanation_text =
     (let i1 = (if trend_text \<noteq> []
                then u ''### '' @ [128200] @ u '' Strategic Trends'' @ [10] @ trend_text
                     @ [10, 10] @ u ''---'' @ [10]
                else []);
          i2 = (if explanation_text \<noteq> []
                then i1 @ u ''### '' @ [128161] @ u '' Data Summary'' @ [10] @ explanation_text
                else i1)
      in if i2 = []
         then u ''The query executed successfully but no additional insights were generated.''
         else i2)"

text \<open>
  The outer handler: \<open>error_msg = f"Error: {str(e)}"\<close>, then the outputs; when
  \<open>str(e)\<close> raises, that exception leaves the handler.
\<close>

definition error_outputs :: "exn \<Rightarrow> exn + ('f, 'c) outputs" where
  "error_outputs e =
     (case str_exn e of
        Inl e' \<Rightarrow> Inl e'
      | Inr msg \<Rightarrow> Inr (u ''Error: '' @ msg, None, None, u ''Error: '' @ msg))"

text \<open>The body of the outer \<open>try\<close>, with the scripts executed on the way.\<close>

definition process_request_async_body ::
  "('f, 'c) env \<Rightarrow> pystr \<Rightarrow> (exn + ('f, 'c) outputs) \<times> pystr list" where
  "process_request_async_body E message =
     (if strip message = []
      then (Inr (u ''Error: Please enter a question'', None, None,
                 u ''Error: No question provided''), [])
      else
       (case run_bi_pipeline_async E message of
          Inl e \<Rightarrow> (Inl e, [])
        | Inr results \<Rightarrow>
       (let sql_query = sql_normalizer (results_get results (u ''sql_query'') [])
        in
       (case result_parser E (results_get results (u ''query_results'') (u ''{}'')) of
          Inl e \<Rightarrow> (Inl e, [])
        | Inr query_results \<Rightarrow>
       (case py_get query_results (u ''success'') (PBool False) of
          Inl e \<Rightarrow> (Inl e, [])
        | Inr success \<Rightarrow>
       (if \<not> truthy E success
        then
         (case py_get query_results (u ''error'') (PStr (u ''Unknown error'')) of
            Inl e \<Rightarrow> (Inl e, [])
          | Inr error_msg \<Rightarrow>
              (Inr ((u ''-- Error executing query'' @ [10] @ sql_query @ [10, 10]
                       @ u ''-- Error: '' @ format_value E error_msg),
                    None, None,
                    (u ''Error executing query: '' @ format_value E error_msg)), []))
        else
       (case py_get query_results (u ''data'') (PList []) of
          Inl e \<Rightarrow> (Inl e, [])
        | Inr data_list \<Rightarrow>
       (if \<not> truthy E data_list
        then (Inr (sql_query, Some new_DataFrame, None,
                   u ''The query executed successfully but returned no data.''), [])
        else
       (case pd_DataFrame E data_list of
          Inl e \<Rightarrow> (Inl e, [])
        | Inr df \<Rightarrow>
       (let insights = final_insights (results_get results (u ''trend_insights'') [])
                         (results_get results (u ''explanation_text'') [])
        in
       (case chart_synthesizer E (results_get results (u ''chart_spec'') []) df of
          (Inl e, executed) \<Rightarrow> (Inl e, executed)
        | (Inr chart, executed) \<Rightarrow>
            (Inr (sql_query, Some df, chart, insights), executed))))))))))))"

definition process_request_async ::
  "('f, 'c) env \<Rightarrow> pystr \<Rightarrow> (exn + ('f, 'c) outputs) \<times> pystr list" where
  "process_request_async E message =
     (case process_request_async_body E message of
        (body, executed) \<Rightarrow> (try_except body error_outputs, executed))"

section \<open>The synchronous handler and the stored table\<close>

text \<open>The chart of \<open>create_no_data_chart\<close>: one text mark over a one-row table.\<close>

record text_chart =
  message_data :: "pystr list"
  text_encoding :: pystr
  mark_size :: nat
  mark_color :: pystr
  mark_fontWeight :: nat
  mark_font :: pystr
  width :: nat
  height :: nat
  title :: pystr
  view_strokeWidth :: nat

definition create_no_data_chart :: text_chart where
  "create_no_data_chart =
     \<lparr> message_data = [u ''No Data to Display for this Query''],
       text_encoding = u ''message:N'',
       mark_size = 18,
       mark_color = u ''#718096'',
       mark_fontWeight = 500,
       mark_font = u ''Source Code Pro'',
       width = 500,
       height = 300,
       title = u ''Visual Insight Summary'',
       view_strokeWidth = 0 \<rparr>"

text \<open>A chart shown to the user: the placeholder, or the object a script produced.\<close>

datatype 'c chart = Placeholder text_chart | Generated 'c

type_synonym ('f, 'c) shown = "pystr \<times> 'f table option \<times> 'c chart option \<times> pystr"

text \<open>
  \<open>process_request\<close>, with the global \<open>current_df_storage\<close> passed in and returned:
  the outputs (or the exception that leaves the function), the stored table after the
  call, and the scripts executed.  \<open>asyncio.run\<close> runs the coroutine to its end and
  raises what the coroutine raised; the handler of \<open>process_request\<close> formats that
  exception, returns four outputs without a table, and does not touch the stored table.
  The construction of the placeholder chart and the printing are taken to return.
\<close>

definition process_request ::
  "('f, 'c) env \<Rightarrow> 'f table option \<Rightarrow> pystr
     \<Rightarrow> (exn + ('f, 'c) shown) \<times> 'f table option \<times> pystr list" where
  "process_request E current_df_storage message =
     (case process_request_async E message of
        (Inl e, executed) \<Rightarrow>
          (try_except (Inl e)
             (\<lambda>e. case str_exn e of
                    Inl e' \<Rightarrow> Inl e'
                  | Inr msg \<Rightarrow> Inr (u ''Error: '' @ msg, None, None, u ''Error: '' @ msg)),
           current_df_storage, executed)
      | (Inr (sql_query, df, chart, explanation), executed) \<Rightarrow>
          (case df of
             None \<Rightarrow>
               (Inr (sql_query, df, Some (Placeholder create_no_data_chart), explanation),
                None, executed)
           | Some t \<Rightarrow>
               if df_empty t
               then (Inr (sql_query, df, Some (Placeholder create_no_data_chart), explanation),
                     None, executed)
               else (Inr (sql_query, df, map_option Generated chart, explanation),
                     Some t, executed)))"

section \<open>CSV download\<close>

text \<open>
  The collaborators of \<open>download_query_results\<close>: the scratch directory, the time
  stamp \<open>datetime.now().strftime(...)\<close>, \<open>os.path.join\<close>, and \<open>DataFrame.to_csv\<close>
  with the size lookup that follows it, which acts on the file system (a mapping from
  paths to contents) and may raise.
\<close>

type_synonym files = "pystr \<rightharpoonup> pystr"

record 'f os_env =
  gettempdir :: pystr
  timestamp :: pystr
  path_join :: "pystr \<Rightarrow> pystr \<Rightarrow> pystr"
  to_csv :: "'f table \<Rightarrow> pystr \<Rightarrow> files \<Rightarrow> exn option \<times> files"

definition no_data_to_download :: pystr where
  "no_data_to_download = u ''No data to download. Please run a query first.''"

definition download_query_results ::
  "'f os_env \<Rightarrow> 'f table option \<Rightarrow> files \<Rightarrow> (exn + pystr) \<times> files" where
  "download_query_results os current_df_storage fs =
     (case current_df_storage of
        None \<Rightarrow> (Inr no_data_to_download, fs)
      | Some df \<Rightarrow>
          if df_empty df then (Inr no_data_to_download, fs)
          else let csv_filename = u ''query_results_'' @ timestamp os @ u ''.csv'';
                   csv_path = path_join os (gettempdir os) csv_filename
               in (case to_csv os df csv_path fs of
                     (None, fs') \<Rightarrow> (Inr csv_path, fs')
                   | (Some e, fs') \<Rightarrow>
                       (try_except (Inl e)
                          (\<lambda>e. case str_exn e of
                                 Inl e' \<Rightarrow> Inl e'
                               | Inr msg \<Rightarrow> Inr (u ''Error downloading file: '' @ msg)), fs')))"



section \<open>Sample collaborators\<close>

text \<open>
  Concrete collaborators on which the results are instantiated: an agent run with a
  fixed outcome, a \<open>json.loads\<close> that knows three texts and rejects the rest, a
  \<open>float\<close> that knows two numerals, ASCII lower-casing, a \<open>DataFrame\<close> constructor for
  lists of records, and an \<open>exec\<close> with a fixed outcome.
\<close>

definition sample_json_loads :: "pystr \<Rightarrow> exn + int pyval" where
  \<open>sample_json_loads s =
     (if s = u ''[{"a":1},{"a":2}]''
      then Inr (PList [PDict [(u ''a'', PInt 1)], PDict [(u ''a'', PInt 2)]])
      else if s = u ''[]'' then Inr (PList [])
      else if s = u ''{}'' then Inr (PDict [])
      else Inl (Exception (Inr (u ''Expecting value: line 1 column 1 (char 0)''))))\<close>

definition sample_float :: "pystr \<Rightarrow> int option" where
  "sample_float s = (if s = u ''1'' then Some 1 else if s = u ''2'' then Some 2 else None)"

definition ascii_lower :: "pystr \<Rightarrow> pystr" where
  "ascii_lower s = map (\<lambda>c. if 65 \<le> c \<and> c \<le> 90 then c + 32 else c) s"

definition sample_DataFrame :: "int pyval \<Rightarrow> exn + int table" where
  "sample_DataFrame v =
     (case v of
        PList records \<Rightarrow>
          Inr (DataFrame (case records of PDict d # _ \<Rightarrow> map fst d | _ \<Rightarrow> [])
                 (map (\<lambda>r. case r of PDict d \<Rightarrow> map snd d | _ \<Rightarrow> [r]) records))
      | _ \<Rightarrow> Inl (Exception (Inr (u ''DataFrame constructor not properly called!''))))"

definition sample_env ::
  "exn + (pystr \<rightharpoonup> pystr) \<Rightarrow> exn + unit option \<Rightarrow> (int, unit) env" where
  "sample_env run_outcome exec_outcome =
     \<lparr> run_bi_pipeline_async = (\<lambda>message. run_outcome),
       json_loads = sample_json_loads,
       float_of_str = sample_float,
       float_bool = (\<lambda>f. f \<noteq> 0),
       py_str = type_name,
       str_lower = ascii_lower,
       pd_DataFrame = sample_DataFrame,
       exec_chart = (\<lambda>script df. exec_outcome) \<rparr>"

text \<open>
  A \<open>json.loads\<close> interrupted from the keyboard, and the exceptions of a charting
  script that raises an exception whose \<open>__str__\<close> raises a second one, whose
  \<open>__str__\<close> raises \<open>RuntimeError("boom")\<close>.
\<close>

definition interrupted_env :: "(int, unit) env" where
  "interrupted_env =
     (sample_env (Inr [u ''query_results'' \<mapsto> u ''[]'']) (Inr None))
       \<lparr> json_loads := (\<lambda>s. Inl (BaseExceptionOnly (Inr []))) \<rparr>"

definition boom :: exn where
  "boom = Exception (Inr (u ''boom''))"

definition str_raises_boom :: exn where
  "str_raises_boom = Exception (Inl boom)"

definition str_raises_twice :: exn where
  "str_raises_twice = Exception (Inl str_raises_boom)"

text \<open>\<open>SystemExit(1)\<close>, and an exception whose \<open>__str__\<close> ends the interpreter.\<close>

definition exit_1 :: exn where
  "exit_1 = BaseExceptionOnly (Inr (u ''1''))"

definition str_exits :: exn where
  "str_exits = Exception (Inl exit_1)"

definition sample_script :: pystr where
  "sample_script = u ''import altair as alt'' @ [10] @ u ''chart = alt.Chart(df).mark_bar()''"

definition state_refused :: "pystr \<rightharpoonup> pystr" where
  "state_refused = [u ''sql_query'' \<mapsto> u ''SELECT 1'',
                    u ''query_results'' \<mapsto> u ''connection refused'',
                    u ''chart_spec'' \<mapsto> sample_script]"

definition state_no_rows :: "pystr \<rightharpoonup> pystr" where
  "state_no_rows = [u ''sql_query'' \<mapsto> u ''SELECT 1'',
                    u ''query_results'' \<mapsto> u ''[]'',
                    u ''chart_spec'' \<mapsto> sample_script]"

definition state_two_rows :: "pystr \<rightharpoonup> pystr" where
  \<open>state_two_rows = [u ''sql_query'' \<mapsto> u ''SELECT 1'',
                     u ''query_results'' \<mapsto> u ''[{"a":1},{"a":2}]'',
                     u ''chart_spec'' \<mapsto> sample_script]\<close>

definition sample_os :: "int os_env" where
  "sample_os =
     \<lparr> gettempdir = u ''/tmp'',
       timestamp = u ''20240101_120000'',
       path_join = (\<lambda>a b. a @ u ''/'' @ b),
       to_csv = (\<lambda>df path fs. (None, fs(path \<mapsto> u ''a''))) \<rparr>"

definition sample_table :: "int table" where
  "sample_table = DataFrame [u ''a''] [[PInt 1], [PInt 2]]"

section \<open>Evaluation on concrete inputs\<close>

lemmas str_eval = u_def strip_def lstrip_def rstrip_def isspace_def strip_char_def
  thinking_close_def thinking_open_def fence_def fence_sql_def sublist_code suffix_to_prefix

lemmas model_eval = sql_normalizer_def try_except_def py_get_def df_empty_def new_DataFrame_def
  results_get_def az_ignorecase_def sub_leading_fence_def sub_trailing_fence_def clean_json_def
  split_cells_def cell_value_def row_dict_def markdown_table_def unparsed_def parsed_rows_def
  result_parser_def chart_spec_clean_def no_valid_code_def chart_synthesizer_def
  final_insights_def error_outputs_def chart_warning_def process_request_async_body_def
  process_request_async_def process_request_def

lemmas sample_eval = sample_json_loads_def sample_float_def ascii_lower_def sample_DataFrame_def
  sample_env_def sample_script_def state_refused_def state_no_rows_def state_two_rows_def
  sample_os_def sample_table_def interrupted_env_def boom_def str_raises_boom_def
  str_raises_twice_def exit_1_def str_exits_def

section \<open>Where exceptions can come from\<close>





section \<open>The orchestrator on a failed query\<close>

text \<open>
  Claim C1, as the program has it.  When the question is not blank, the agent run
  returns a state, and the Result Parser yields a record whose \<open>success\<close> entry is
  absent or falsy, \<open>process_request_async\<close> returns the normalized SQL between the
  line \<open>-- Error executing query\<close> and the comment \<open>-- Error: msg\<close>, no table, no chart
  and the explanation \<open>Error executing query: msg\<close>, where \<open>msg\<close> is the record's
  \<open>error\<close> entry or \<open>Unknown error\<close>; no script is executed.  \<open>process_request\<close>
  passes the SQL, the absent table and the explanation on, puts the placeholder chart
  in the place of the absent chart, and clears the stored table.
\<close>

theorem failed_query_outputs:
  assumes "strip message \<noteq> []"
    and "run_bi_pipeline_async E message = Inr results"
    and "result_parser E (results_get results (u ''query_results'') (u ''{}'')) = Inr (PDict d)"
    and "\<not> truthy E (case map_of d (u ''success'') of Some x \<Rightarrow> x | None \<Rightarrow> PBool False)"
  shows "let sql_query = sql_normalizer (results_get results (u ''sql_query'') []);
             msg = format_value E (case map_of d (u ''error'') of Some x \<Rightarrow> x
                                   | None \<Rightarrow> PStr (u ''Unknown error''));
             annotated = u ''-- Error executing query'' @ [10] @ sql_query @ [10, 10]
                           @ u ''-- Error: '' @ msg;
             explanation = u ''Error executing query: '' @ msg
         in process_request_async E message = (Inr (annotated, None, None, explanation), [])
          \<and> process_request E stored message
              = (Inr (annotated, None, Some (Placeholder create_no_data_chart), explanation),
                 None, [])"
  using assms
  by (simp add: process_request_def process_request_async_def process_request_async_body_def
      py_get_def try_except_def Let_def)

theorem failed_query_outputs_witness:
  "result_parser (sample_env (Inr state_refused) (Inr None)) (u ''connection refused'')
     = Inr (PDict [(u ''success'', PBool False), (u ''data'', PList []),
             (u ''error'', PStr (u ''Could not parse query results. Output: connection refused''))])
   \<and> process_request_async (sample_env (Inr state_refused) (Inr None)) (u ''How many?'')
     = (Inr (u ''-- Error executing query'' @ [10] @ u ''SELECT 1'' @ [10, 10]
               @ u ''-- Error: Could not parse query results. Output: connection refused'',
             None, None,
             u ''Error executing query: Could not parse query results. Output: connection refused''),
        [])"
proof -
  let ?E = "sample_env (Inr state_refused) (Inr None) :: (int, unit) env"
  let ?d = "[(u ''success'', PBool False), (u ''data'', PList []),
             (u ''error'', PStr (u ''Could not parse query results. Output: connection refused''))]
            :: (pystr \<times> int pyval) list"
  have 1: "strip (u ''How many?'') \<noteq> []"
    by (simp add: str_eval)
  have 2: "run_bi_pipeline_async ?E (u ''How many?'') = Inr state_refused"
    by (simp add: sample_env_def)
  have p: "result_parser ?E (u ''connection refused'') = Inr (PDict ?d)"
    by (simp add: str_eval model_eval sample_eval)
  have 3: "result_parser ?E (results_get state_refused (u ''query_results'') (u ''{}''))
             = Inr (PDict ?d)"
    using p by (simp add: results_get_def state_refused_def u_def)
  have 4: "\<not> truthy ?E (case map_of ?d (u ''success'') of Some x \<Rightarrow> x | None \<Rightarrow> PBool False)"
    by (simp add: u_def)
  from failed_query_outputs [OF 1 2 3 4, of "Some sample_table"] p show ?thesis
    by (simp add: Let_def str_eval sql_normalizer_def results_get_def state_refused_def)
qed

text \<open>
  The claim as written has no chart in the failure case; what the synchronous handler
  returns for the unparseable result \<open>connection refused\<close> carries the placeholder
  chart.
\<close>

theorem failed_query_chart_counterexample:
  "process_request (sample_env (Inr state_refused) (Inr None)) None (u ''How many?'')
     = (Inr (u ''-- Error executing query'' @ [10] @ u ''SELECT 1'' @ [10, 10]
               @ u ''-- Error: Could not parse query results. Output: connection refused'',
             None, Some (Placeholder create_no_data_chart),
             u ''Error executing query: Could not parse query results. Output: connection refused''),
        None, [])"
  by (simp add: str_eval model_eval sample_eval)

section \<open>The outermost handlers\<close>




section \<open>Empty data\<close>

text \<open>
  Claim C3.  When the Result Parser yields a record with a truthy \<open>success\<close> entry and
  an absent or empty \<open>data\<close> entry, \<open>process_request\<close> executes no script and returns
  the placeholder chart (one text mark reading \<open>No Data to Display for this Query\<close>)
  beside the empty table, whatever \<open>chart_spec\<close> holds in the pipeline state.
\<close>

theorem empty_data_placeholder:
  assumes "strip message \<noteq> []"
    and "run_bi_pipeline_async E message = Inr results"
    and "result_parser E (results_get results (u ''query_results'') (u ''{}'')) = Inr (PDict d)"
    and "truthy E (case map_of d (u ''success'') of Some x \<Rightarrow> x | None \<Rightarrow> PBool False)"
    and "\<not> truthy E (case map_of d (u ''data'') of Some x \<Rightarrow> x | None \<Rightarrow> PList [])"
  shows "process_request E stored message
           = (Inr (sql_normalizer (results_get results (u ''sql_query'') []),
                   Some new_DataFrame, Some (Placeholder create_no_data_chart),
                   u ''The query executed successfully but returned no data.''),
              None, [])
         \<and> message_data create_no_data_chart = [u ''No Data to Display for this Query'']"
  using assms
  by (simp add: process_request_def process_request_async_def process_request_async_body_def
      py_get_def try_except_def Let_def df_empty_def new_DataFrame_def create_no_data_chart_def)

theorem empty_data_placeholder_witness:
  "results_get state_no_rows (u ''chart_spec'') [] = sample_script
   \<and> \<not> no_valid_code (sample_env (Inr state_no_rows) (Inr (Some ()))) (chart_spec_clean sample_script)
   \<and> process_request (sample_env (Inr state_no_rows) (Inr (Some ()))) (Some sample_table)
       (u ''How many?'')
     = (Inr (u ''SELECT 1'', Some new_DataFrame, Some (Placeholder create_no_data_chart),
             u ''The query executed successfully but returned no data.''),
        None, [])"
proof -
  let ?E = "sample_env (Inr state_no_rows) (Inr (Some ())) :: (int, unit) env"
  let ?d = "[(u ''success'', PBool True), (u ''data'', PList [])] :: (pystr \<times> int pyval) list"
  have 1: "strip (u ''How many?'') \<noteq> []"
    by (simp add: str_eval)
  have 2: "run_bi_pipeline_async ?E (u ''How many?'') = Inr state_no_rows"
    by (simp add: sample_env_def)
  have 3: "result_parser ?E (results_get state_no_rows (u ''query_results'') (u ''{}''))
             = Inr (PDict ?d)"
    by (simp add: str_eval model_eval sample_eval)
  have 4: "truthy ?E (case map_of ?d (u ''success'') of Some x \<Rightarrow> x | None \<Rightarrow> PBool False)"
    by (simp add: u_def)
  have 5: "\<not> truthy ?E (case map_of ?d (u ''data'') of Some x \<Rightarrow> x | None \<Rightarrow> PList [])"
    by (simp add: u_def)
  have 6: "results_get state_no_rows (u ''chart_spec'') [] = sample_script"
    by (simp add: results_get_def state_no_rows_def u_def)
  have 7: "\<not> no_valid_code ?E (chart_spec_clean sample_script)"
    by (simp add: str_eval model_eval sample_eval)
  from empty_data_placeholder [OF 1 2 3 4 5, of "Some sample_table"] 6 7 show ?thesis
    by (simp add: str_eval sql_normalizer_def results_get_def state_no_rows_def)
qed

section \<open>The guard of the Chart Synthesizer\<close>

text \<open>
  Claim C8.  When the cleaned charting script is empty, starts with \<open><\<close>, or has no
  \<open>import\<close> in its lower-cased text, the Chart Synthesizer returns \<open>None\<close> and hands
  nothing to \<open>exec\<close>.
\<close>

theorem chart_guard_rejects:
  "chart_spec_clean chart_spec = [] \<or> prefix (u ''<'') (chart_spec_clean chart_spec)
     \<or> \<not> sublist (u ''import'') (str_lower E (chart_spec_clean chart_spec)) \<Longrightarrow>
   chart_synthesizer E chart_spec df = (Inr None, [])"
  by (simp add: chart_synthesizer_def no_valid_code_def)

theorem chart_guard_rejects_witness:
  "\<not> sublist (u ''import'')
       (str_lower (sample_env (Inr state_two_rows) (Inr (Some ())))
          (chart_spec_clean (u ''chart = alt.Chart(df).mark_bar()'')))
   \<and> chart_synthesizer (sample_env (Inr state_two_rows) (Inr (Some ())))
        (u ''chart = alt.Chart(df).mark_bar()'') sample_table = (Inr None, [])
   \<and> chart_synthesizer (sample_env (Inr state_two_rows) (Inr (Some ())))
        sample_script sample_table = (Inr (Some ()), [sample_script])"
proof -
  let ?E = "sample_env (Inr state_two_rows) (Inr (Some ())) :: (int, unit) env"
  have h: "\<not> sublist (u ''import'')
             (str_lower ?E (chart_spec_clean (u ''chart = alt.Chart(df).mark_bar()'')))"
    by (simp add: str_eval model_eval sample_eval)
  have e: "chart_synthesizer ?E sample_script sample_table = (Inr (Some ()), [sample_script])"
    by (simp add: str_eval model_eval sample_eval)
  from chart_guard_rejects [of "u ''chart = alt.Chart(df).mark_bar()''" ?E sample_table] h e
  show ?thesis
    by simp
qed

section \<open>The stored table\<close>

text \<open>
  When the coroutine returns its outputs, the stored table after the call is the
  returned table if that is not empty, and \<open>None\<close> otherwise.
\<close>

lemma stored_table_when_coroutine_returns:
  assumes "process_request_async E message = (Inr (sql_query, df, chart, explanation), executed)"
  shows "fst (snd (process_request E current_df_storage message))
           = (case df of None \<Rightarrow> None | Some t \<Rightarrow> if df_empty t then None else Some t)"
  using assms by (simp add: process_request_def split: option.splits)

text \<open>
  Claim C9 asks that after every call of \<open>process_request\<close> that returns, the stored
  table is the table the call returned, or \<open>None\<close> when it returned none.  The handler
  of \<open>process_request\<close> returns no table and leaves the stored table as it was.  It is
  reached when the charting script raises an exception whose \<open>__str__\<close> raises a second
  one, whose \<open>__str__\<close> raises \<open>RuntimeError("boom")\<close>: the first leaves the chart
  handler, the second the outer handler of \<open>process_request_async\<close>, and the third is
  caught by \<open>process_request\<close>.  With a table stored by an earlier request, the call
  returns \<open>(Error: boom, None, None, Error: boom)\<close> and the earlier table is still
  stored.
\<close>

theorem stored_table_kept_by_handler:
  "process_request (sample_env (Inr state_two_rows) (Inl str_raises_twice)) (Some sample_table)
       (u ''How many?'')
     = (Inr (u ''Error: boom'', None, None, u ''Error: boom''), Some sample_table, [sample_script])"
  by (simp add: str_eval model_eval sample_eval)

section \<open>The download guard\<close>

text \<open>
  Claim C10.  When the stored table is \<open>None\<close> or empty, \<open>download_query_results\<close>
  returns the string \<open>No data to download. Please run a query first.\<close>, raises
  nothing, and leaves the file system as it was.
\<close>

theorem download_without_data:
  "current_df_storage = None \<or> (\<exists>df. current_df_storage = Some df \<and> df_empty df) \<Longrightarrow>
   download_query_results os current_df_storage fs
     = (Inr (u ''No data to download. Please run a query first.''), fs)"
  by (auto simp: download_query_results_def no_data_to_download_def)

theorem download_without_data_witness:
  "download_query_results sample_os None Map.empty
     = (Inr (u ''No data to download. Please run a query first.''), Map.empty)
   \<and> df_empty (DataFrame [u ''a''] ([] :: int pyval list list))
   \<and> download_query_results sample_os (Some (DataFrame [u ''a''] [])) Map.empty
     = (Inr (u ''No data to download. Please run a query first.''), Map.empty)"
  using download_without_data [of None sample_os Map.empty]
    download_without_data [of "Some (DataFrame [u ''a''] [])" sample_os Map.empty]
  by (simp add: df_empty_def)

section \<open>Facts about the string operations\<close>

lemma split_not_Nil: "split sep s \<noteq> []"
  by (induction sep s rule: split.induct) (auto split: list.splits)

lemma split_single: "split sep s = [p] \<Longrightarrow> p = s"
  by (induction sep s arbitrary: p rule: split.induct)
    (auto simp: split_not_Nil split: list.splits if_splits)

lemma split_single_iff: "sep \<noteq> [] \<Longrightarrow> split sep s = [s] \<longleftrightarrow> \<not> sublist sep s"
proof (induction sep s rule: split.induct)
  case (1 sep)
  then show ?case by (cases sep) auto
next
  case (2 sep c cs)
  show ?case
  proof (cases "prefix sep (c # cs)")
    case True
    with 2 split_not_Nil [of sep "drop (length sep) (c # cs)"] show ?thesis
      by (auto simp: sublist_Cons_right)
  next
    case False
    with 2 split_not_Nil [of sep cs] show ?thesis
      by (auto simp: sublist_Cons_right split: list.splits dest: split_single)
  qed
qed

lemma last_split_no_sep: "sep \<noteq> [] \<Longrightarrow> \<not> sublist sep (last (split sep s))"
proof (induction sep s rule: split.induct)
  case (1 sep)
  then show ?case by (cases sep) auto
next
  case (2 sep c cs)
  show ?case
  proof (cases "prefix sep (c # cs)")
    case True
    with 2 split_not_Nil [of sep "drop (length sep) (c # cs)"] show ?thesis
      by auto
  next
    case False
    obtain p ps where sp: "split sep cs = p # ps"
      using split_not_Nil [of sep cs] by (cases "split sep cs") auto
    show ?thesis
    proof (cases ps)
      case Nil
      with sp have "p = cs" by (auto dest: split_single)
      with 2 False sp Nil show ?thesis by (auto simp: sublist_Cons_right)
    next
      case (Cons a list)
      with 2 False sp show ?thesis by auto
    qed
  qed
qed

lemma last_split_after_sep:
  "sep \<noteq> [] \<Longrightarrow> sublist sep s \<Longrightarrow> suffix (sep @ last (split sep s)) s"
proof (induction sep s rule: split.induct)
  case (1 sep)
  then show ?case by (cases sep) auto
next
  case (2 sep c cs)
  show ?case
  proof (cases "prefix sep (c # cs)")
    case True
    let ?r = "drop (length sep) (c # cs)"
    from True have eq: "c # cs = sep @ ?r" by (metis append_take_drop_id prefixE append_eq_conv_conj)
    have ne: "split sep ?r \<noteq> []" by (rule split_not_Nil)
    show ?thesis
    proof (cases "sublist sep ?r")
      case True
      with 2 \<open>prefix sep (c # cs)\<close> have "suffix (sep @ last (split sep ?r)) ?r" by simp
      then have "suffix (sep @ last (split sep ?r)) (c # cs)"
        by (metis suffix_drop suffix_order.order_trans)
      with 2 \<open>prefix sep (c # cs)\<close> ne show ?thesis by simp
    next
      case False
      with 2(3) have "split sep ?r = [?r]" by (simp add: split_single_iff)
      with 2 \<open>prefix sep (c # cs)\<close> eq show ?thesis by (simp add: suffix_def)
    qed
  next
    case False
    with 2(4) have sub: "sublist sep cs" by (simp add: sublist_Cons_right)
    obtain p ps where sp: "split sep cs = p # ps"
      using split_not_Nil [of sep cs] by (cases "split sep cs") auto
    from sub 2(3) have "split sep cs \<noteq> [cs]" by (simp add: split_single_iff)
    with sp have "ps \<noteq> []" by (auto dest: split_single)
    with 2 False sp sub show ?thesis by (auto simp: suffix_Cons)
  qed
qed


lemma replace_Cons_match:
  "prefix [c, c, c] (y # ys) \<Longrightarrow>
   replace [c, c, c] [] (y # ys) = replace [c, c, c] [] (drop 2 ys) \<and> y = c \<and> prefix [c, c] ys"
  by (auto simp: numeral_2_eq_2)

lemma replace_Cons_other:
  "\<not> prefix [c, c, c] (y # ys) \<Longrightarrow>
   replace [c, c, c] [] (y # ys) = y # replace [c, c, c] [] ys"
  by auto

lemma prefix_cc_c: "prefix [c, c] ys \<Longrightarrow> prefix [c] ys"
  by (auto simp: prefix_def)

lemma replace_hd:
  assumes "prefix [c] (replace [c, c, c] [] s)"
  shows "prefix [c] s"
proof (cases s)
  case Nil
  with assms show ?thesis by simp
next
  case (Cons y ys)
  show ?thesis
  proof (cases "prefix [c, c, c] (y # ys)")
    case True
    from replace_Cons_match [OF True] show ?thesis by (simp add: Cons)
  next
    case False
    from assms show ?thesis
      unfolding Cons replace_Cons_other [OF False] by simp
  qed
qed

lemma replace_hd2:
  assumes "prefix [c, c] (replace [c, c, c] [] s)"
  shows "prefix [c, c] s"
proof (cases s)
  case Nil
  with assms show ?thesis by simp
next
  case (Cons y ys)
  show ?thesis
  proof (cases "prefix [c, c, c] (y # ys)")
    case True
    from replace_Cons_match [OF True] show ?thesis by (simp add: Cons prefix_cc_c)
  next
    case False
    from assms have "y = c" and "prefix [c] (replace [c, c, c] [] ys)"
      unfolding Cons replace_Cons_other [OF False] by auto
    with replace_hd [of c ys] show ?thesis by (simp add: Cons)
  qed
qed

lemma replace_removes: "\<not> sublist [c, c, c] (replace [c, c, c] [] s)"
proof (induction s rule: length_induct)
  case (1 s)
  show ?case
  proof (cases s)
    case Nil
    then show ?thesis by simp
  next
    case (Cons y ys)
    show ?thesis
    proof (cases "prefix [c, c, c] (y # ys)")
      case True
      have "length (drop 2 ys) < length s" by (simp add: Cons)
      with 1 have "\<not> sublist [c, c, c] (replace [c, c, c] [] (drop 2 ys))" by blast
      with replace_Cons_match [OF True] show ?thesis by (metis Cons)
    next
      case False
      have "length ys < length s" by (simp add: Cons)
      with 1 have ih: "\<not> sublist [c, c, c] (replace [c, c, c] [] ys)" by blast
      have "\<not> prefix [c, c, c] (y # replace [c, c, c] [] ys)"
      proof
        assume "prefix [c, c, c] (y # replace [c, c, c] [] ys)"
        then have "y = c" and "prefix [c, c] (replace [c, c, c] [] ys)" by auto
        with replace_hd2 [of c ys] have "prefix [c, c, c] (y # ys)" by auto
        with False show False by blast
      qed
      with ih show ?thesis
        unfolding Cons replace_Cons_other [OF False] by (simp only: sublist_Cons_right) simp
    qed
  qed
qed

lemma replace_removes_fence: "\<not> sublist fence (replace fence [] s)"
  using replace_removes [of 96 s] by (simp add: fence_def u_def)

lemma prefix_fence_sql: "prefix fence_sql s \<Longrightarrow> prefix fence s"
  by (auto simp: fence_sql_def fence_def u_def prefix_def)


lemma rstrip_prefix: "prefix (rstrip s) s"
  by (metis prefix_def rev_append rev_rev_ident rstrip_def takeWhile_dropWhile_id)

lemma lstrip_suffix: "suffix (lstrip s) s"
  by (simp add: lstrip_def suffix_dropWhile)

lemma sublist_strip: "sublist (strip s) s"
  unfolding strip_def
  by (meson rstrip_prefix lstrip_suffix prefix_imp_sublist suffix_imp_sublist sublist_order.order_trans)

lemma strip_ends: "strip s = [] \<or> (\<not> isspace (hd (strip s)) \<and> \<not> isspace (last (strip s)))"
proof (cases "strip s = []")
  case False
  define a where "a = dropWhile isspace s"
  define r where "r = dropWhile isspace (rev a)"
  have s: "strip s = rev r" by (simp add: strip_def lstrip_def rstrip_def a_def r_def)
  with False have rne: "r \<noteq> []" by simp
  then have "\<not> isspace (hd r)" unfolding r_def by (rule hd_dropWhile)
  then have l: "\<not> isspace (last (strip s))" using rne by (simp add: s last_rev)
  from rne have ane: "a \<noteq> []" by (auto simp: r_def)
  then have ha: "\<not> isspace (hd a)" unfolding a_def by (rule hd_dropWhile)
  have "last r = last (rev a)"
    using rne unfolding r_def by (metis dropWhile_eq_Nil_conv dropWhile_last)
  then have "hd (strip s) = hd a" using rne ane by (simp add: s hd_rev last_rev)
  with ha l show ?thesis by simp
qed simp

lemma strip_fixed:
  assumes "s = [] \<or> (\<not> isspace (hd s) \<and> \<not> isspace (last s))"
  shows "strip s = s"
proof (cases "s = []")
  case True then show ?thesis by (simp add: strip_def lstrip_def rstrip_def)
next
  case False
  with assms have h: "\<not> isspace (hd s)" and l: "\<not> isspace (last s)" by auto
  from False h have 1: "dropWhile isspace s = s" by (cases s) auto
  from False l have 2: "dropWhile isspace (rev s) = rev s" by (cases "rev s") (auto simp: last_rev[symmetric] hd_rev)
  show ?thesis by (simp add: strip_def lstrip_def rstrip_def 1 2)
qed

lemma strip_idem: "strip (strip s) = strip s"
  by (rule strip_fixed) (rule strip_ends)

lemma no_fence_strip: "\<not> sublist fence s \<Longrightarrow> \<not> prefix fence (strip s)"
  by (meson prefix_imp_sublist sublist_strip sublist_order.order_trans)

text \<open>The fence step, on the trimmed text after the marker.\<close>

lemma sql_normalizer_unmarked:
  "\<not> sublist thinking_close s \<Longrightarrow>
   sql_normalizer s =
     (if prefix fence_sql (strip s) then strip (replace fence [] (replace fence_sql [] (strip s)))
      else if prefix fence (strip s) then strip (replace fence [] (strip s))
      else strip s)"
  by (simp add: sql_normalizer_def Let_def)

lemma sql_normalizer_marked:
  assumes "sublist thinking_close s"
  shows "sql_normalizer s = sql_normalizer (last (split thinking_close s))"
proof -
  have ne: "thinking_close \<noteq> []" by (simp add: thinking_close_def u_def)
  have "\<not> sublist thinking_close (last (split thinking_close s))"
    by (rule last_split_no_sep [OF ne])
  then show ?thesis
    using assms by (simp add: sql_normalizer_unmarked) (simp add: sql_normalizer_def Let_def strip_idem)
qed

lemma sql_normalizer_stripped: "strip (sql_normalizer s) = sql_normalizer s"
  by (simp add: sql_normalizer_def Let_def strip_idem)

lemma sql_normalizer_no_leading_fence: "\<not> prefix fence (sql_normalizer s)"
proof -
  have a: "\<not> prefix fence (strip (replace fence [] x))" for x
    by (rule no_fence_strip) (rule replace_removes_fence)
  show ?thesis
    by (auto simp: sql_normalizer_def Let_def a dest: prefix_fence_sql)
qed

section \<open>The SQL Text Normalizer\<close>

text \<open>
  Claim C6, as the program has it.  The Normalizer continues with the text after the
  last \<open></thinking_process>\<close> marker (that text follows a marker and holds none).  The
  text is trimmed.  If the trimmed text starts with the fence tagged \<open>sql\<close>, every
  tagged fence and then every fence is deleted and the rest trimmed; if it starts with a
  bare fence, every fence is deleted and the rest trimmed; in both cases no fence is
  left.  Otherwise the trimmed text is the result, so a string without markers comes
  back trimmed, and a fence that is not at the start stays.  The input
  \<open><thinking_process>plan</thinking_process>```sql\nSELECT 1\n```\<close> gives \<open>SELECT 1\<close>.
\<close>

theorem sql_normalizer_behaviour:
  "(sublist thinking_close s \<longrightarrow>
      suffix (thinking_close @ last (split thinking_close s)) s
      \<and> \<not> sublist thinking_close (last (split thinking_close s))
      \<and> sql_normalizer s = sql_normalizer (last (split thinking_close s)))
   \<and> (\<not> sublist thinking_close s \<and> \<not> prefix fence (strip s) \<longrightarrow> sql_normalizer s = strip s)
   \<and> (\<not> sublist thinking_close s \<and> prefix fence_sql (strip s) \<longrightarrow>
        sql_normalizer s = strip (replace fence [] (replace fence_sql [] (strip s))))
   \<and> (\<not> sublist thinking_close s \<and> prefix fence (strip s) \<and> \<not> prefix fence_sql (strip s) \<longrightarrow>
        sql_normalizer s = strip (replace fence [] (strip s)))
   \<and> (\<not> sublist thinking_close s \<and> prefix fence (strip s) \<longrightarrow>
        \<not> sublist fence (sql_normalizer s))
   \<and> sql_normalizer (u ''<thinking_process>plan</thinking_process>```sql\<newline>SELECT 1\<newline>```'')
        = u ''SELECT 1''"
proof (intro conjI impI)
  have ne: "thinking_close \<noteq> []" by (simp add: thinking_close_def u_def)
  assume m: "sublist thinking_close s"
  show "suffix (thinking_close @ last (split thinking_close s)) s"
    by (rule last_split_after_sep [OF ne m])
  show "\<not> sublist thinking_close (last (split thinking_close s))"
    by (rule last_split_no_sep [OF ne])
  show "sql_normalizer s = sql_normalizer (last (split thinking_close s))"
    by (rule sql_normalizer_marked [OF m])
next
  assume "\<not> sublist thinking_close s \<and> \<not> prefix fence (strip s)"
  then show "sql_normalizer s = strip s"
    by (auto simp: sql_normalizer_unmarked dest: prefix_fence_sql)
next
  assume "\<not> sublist thinking_close s \<and> prefix fence_sql (strip s)"
  then show "sql_normalizer s = strip (replace fence [] (replace fence_sql [] (strip s)))"
    by (simp add: sql_normalizer_unmarked)
next
  assume "\<not> sublist thinking_close s \<and> prefix fence (strip s) \<and> \<not> prefix fence_sql (strip s)"
  then show "sql_normalizer s = strip (replace fence [] (strip s))"
    by (simp add: sql_normalizer_unmarked)
next
  have a: "\<not> sublist fence (strip (replace fence [] x))" for x
    by (meson replace_removes_fence sublist_strip sublist_order.order_trans)
  assume "\<not> sublist thinking_close s \<and> prefix fence (strip s)"
  then show "\<not> sublist fence (sql_normalizer s)"
    by (simp add: sql_normalizer_unmarked a)
next
  show "sql_normalizer (u ''<thinking_process>plan</thinking_process>```sql\<newline>SELECT 1\<newline>```'')
        = u ''SELECT 1''"
    by (simp add: sql_normalizer_def str_eval)
qed

theorem sql_normalizer_behaviour_witness:
  "sublist thinking_close (u ''<thinking_process>plan</thinking_process>```sql\<newline>SELECT 1\<newline>```'')
   \<and> last (split thinking_close
        (u ''<thinking_process>plan</thinking_process>```sql\<newline>SELECT 1\<newline>```''))
       = u ''```sql\<newline>SELECT 1\<newline>```''
   \<and> sql_normalizer (u ''```sql\<newline>SELECT 1\<newline>```'') = u ''SELECT 1''
   \<and> \<not> sublist fence (u ''SELECT 1'')
   \<and> sql_normalizer (u ''```\<newline>SELECT 1\<newline>```'') = u ''SELECT 1''
   \<and> sql_normalizer (u '' SELECT 1 '') = u ''SELECT 1''"
proof -
  let ?s = "u ''<thinking_process>plan</thinking_process>```sql\<newline>SELECT 1\<newline>```''"
  let ?t = "u ''```sql\<newline>SELECT 1\<newline>```''"
  let ?v = "u ''```\<newline>SELECT 1\<newline>```''"
  let ?w = "u '' SELECT 1 ''"
  have 1: "sublist thinking_close ?s" by (simp add: str_eval)
  have 2: "last (split thinking_close ?s) = ?t" by (simp add: str_eval)
  have 3: "\<not> sublist thinking_close ?t \<and> prefix fence_sql (strip ?t) \<and> prefix fence (strip ?t)"
    by (simp add: str_eval)
  have 4: "strip (replace fence [] (replace fence_sql [] (strip ?t))) = u ''SELECT 1''"
    by (simp add: str_eval)
  have 5: "\<not> sublist thinking_close ?v \<and> prefix fence (strip ?v) \<and> \<not> prefix fence_sql (strip ?v)"
    by (simp add: str_eval)
  have 6: "strip (replace fence [] (strip ?v)) = u ''SELECT 1''"
    by (simp add: str_eval)
  have 7: "\<not> sublist thinking_close ?w \<and> \<not> prefix fence (strip ?w) \<and> strip ?w = u ''SELECT 1''"
    by (simp add: str_eval)
  from sql_normalizer_behaviour [of ?s] sql_normalizer_behaviour [of ?t]
    sql_normalizer_behaviour [of ?v] sql_normalizer_behaviour [of ?w] 1 2 3 4 5 6 7
  show ?thesis
    by metis
qed

text \<open>
  The claim as written makes the Normalizer a no-op on a string without markers and
  has it strip a trailing fence: a leading blank is removed from \<open> SELECT 1\<close>, and the
  fence at the end of \<open>SELECT 1\n```\<close> stays.
\<close>

theorem sql_normalizer_counterexample:
  "\<not> sublist thinking_close ([32] @ u ''SELECT 1'')
   \<and> \<not> sublist fence ([32] @ u ''SELECT 1'')
   \<and> sql_normalizer ([32] @ u ''SELECT 1'') \<noteq> [32] @ u ''SELECT 1''
   \<and> sql_normalizer (u ''SELECT 1'' @ [10] @ fence) = u ''SELECT 1'' @ [10] @ fence"
  by (simp add: sql_normalizer_def str_eval)

text \<open>
  Claim C7.  An output of the Normalizer that holds no \<open></thinking_process>\<close> marker
  is a fixed point of the Normalizer (an output never starts with a fence and is
  trimmed, so the condition on fences of the claim is not needed).
\<close>

theorem sql_normalizer_idempotent:
  assumes "\<not> sublist thinking_close (sql_normalizer s)"
  shows "sql_normalizer (sql_normalizer s) = sql_normalizer s"
  using assms sql_normalizer_no_leading_fence [of s] prefix_fence_sql [of "sql_normalizer s"]
  by (auto simp: sql_normalizer_unmarked sql_normalizer_stripped)


theorem sql_normalizer_idempotent_witness:
  "sql_normalizer (u ''<thinking_process>plan</thinking_process>```sql\<newline>SELECT 1\<newline>```'')
     = u ''SELECT 1''
   \<and> \<not> sublist thinking_close (u ''SELECT 1'')
   \<and> sql_normalizer (u ''SELECT 1'') = u ''SELECT 1''"
proof -
  let ?s = "u ''<thinking_process>plan</thinking_process>```sql\<newline>SELECT 1\<newline>```''"
  have e: "sql_normalizer ?s = u ''SELECT 1''"
    by (simp add: sql_normalizer_def str_eval)
  have h: "\<not> sublist thinking_close (u ''SELECT 1'')"
    by (simp add: str_eval)
  from sql_normalizer_idempotent [of ?s] e h show ?thesis
    by simp
qed

section \<open>The Result Parser\<close>

lemma strip_Nil_iff: "strip s = [] \<longleftrightarrow> (\<forall>c\<in>set s. isspace c)"
proof
  assume "strip s = []"
  then have a: "\<forall>c\<in>set (dropWhile isspace s). isspace c"
    by (simp add: strip_def lstrip_def rstrip_def)
  have "dropWhile isspace s = []"
  proof (rule ccontr)
    assume ne: "dropWhile isspace s \<noteq> []"
    then have "\<not> isspace (hd (dropWhile isspace s))" by (rule hd_dropWhile)
    with a ne show False by (meson hd_in_set)
  qed
  then show "\<forall>c\<in>set s. isspace c" by simp
next
  assume "\<forall>c\<in>set s. isspace c"
  then show "strip s = []"
    by (auto simp: strip_def lstrip_def rstrip_def dest: set_dropWhileD)
qed

lemma split_line: "c \<notin> set l \<Longrightarrow> split [c] (l @ c # rest) = l # split [c] rest"
  by (induction l) auto

lemma split_last_line: "c \<notin> set l \<Longrightarrow> split [c] l = [l]"
  by (induction l) auto

lemma isspace_not_letter: "isspace c \<Longrightarrow> \<not> az_ignorecase c"
  by (auto simp: isspace_def az_ignorecase_def)

lemma length_fence: "length fence = 3"
  by (simp add: fence_def u_def)

lemma clean_json_fenced:
  assumes tag: "\<forall>c\<in>set tag. az_ignorecase c"
    and ws: "\<forall>c\<in>set ws. isspace c"
    and ws': "\<forall>c\<in>set ws'. isspace c"
    and body: "body \<noteq> []" "\<not> isspace (hd body)" "\<not> isspace (last body)"
    and sep: "ws \<noteq> [] \<or> \<not> az_ignorecase (hd body)"
  shows "clean_json (fence @ tag @ ws @ body @ ws' @ fence) = body"
proof -
  obtain b bs where b: "body = b # bs" using body(1) by (cases body) auto
  have nb: "\<not> isspace b" using body(2) b by simp
  have 1: "dropWhile az_ignorecase (tag @ ws @ body @ ws' @ fence) = ws @ body @ ws' @ fence"
  proof (cases ws)
    case Nil
    with sep b have "\<not> az_ignorecase b" by simp
    with tag Nil b show ?thesis by (simp add: dropWhile_append)
  next
    case (Cons w ws2)
    with ws have "\<not> az_ignorecase w" by (simp add: isspace_not_letter)
    with tag Cons show ?thesis by (simp add: dropWhile_append)
  qed
  have 2: "dropWhile isspace (ws @ body @ ws' @ fence) = body @ ws' @ fence"
    using ws nb b by (simp add: dropWhile_append)
  have lead: "sub_leading_fence (fence @ tag @ ws @ body @ ws' @ fence) = body @ ws' @ fence"
    using 1 2 by (simp add: sub_leading_fence_def length_fence)
  have "dropWhile isspace (rev ws' @ rev body) = rev body"
    using ws' body by (cases "rev body") (auto simp: dropWhile_append last_rev [symmetric] hd_rev)
  then have "rstrip (body @ ws') = body"
    by (simp add: rstrip_def)
  then have "sub_trailing_fence (body @ ws' @ fence) = body"
    using length_fence
    by (simp add: sub_trailing_fence_def suffix_def del: append_assoc add: append_assoc [symmetric])
  with lead show ?thesis by (simp add: clean_json_def)
qed


lemma sublist_single: "sublist [c] s \<longleftrightarrow> c \<in> set s"
  by (induction s) (auto simp: sublist_Cons_right)

lemma split_four_lines:
  assumes "c \<notin> set l1" "c \<notin> set l2" "c \<notin> set l3" "c \<notin> set l4"
  shows "split [c] (l1 @ [c] @ l2 @ [c] @ l3 @ [c] @ l4) = [l1, l2, l3, l4]"
  using assms by (simp add: split_line split_last_line)

text \<open>
  Claim C4.  The JSON strategy parses the trimmed result string with its leading and
  trailing fence removed; when \<open>json.loads\<close> returns a list, the parsed result is
  \<open>{success: True, data: that list}\<close>.  The fence removal takes away an opening fence
  with a tag of letters of either case and the whitespace after it, and a closing fence
  with the whitespace before it.  On \<open>[{"a":1},{"a":2}]\<close>, which \<open>json.loads\<close>
  reads as the list of the two records, the result is that list under \<open>data\<close>.
\<close>

theorem json_strategy:
  \<open>(json_loads E (clean_json (strip raw)) = Inr (PList l) \<longrightarrow>
      result_parser E raw = Inr (PDict [(u ''success'', PBool True), (u ''data'', PList l)]))
   \<and> ((\<forall>c\<in>set tag. az_ignorecase c) \<and> (\<forall>c\<in>set ws. isspace c) \<and> (\<forall>c\<in>set ws'. isspace c)
        \<and> body \<noteq> [] \<and> \<not> isspace (hd body) \<and> \<not> isspace (last body)
        \<and> (ws \<noteq> [] \<or> \<not> az_ignorecase (hd body)) \<longrightarrow>
      clean_json (fence @ tag @ ws @ body @ ws' @ fence) = body)
   \<and> (json_loads E (u ''[{"a":1},{"a":2}]'')
         = Inr (PList [PDict [(u ''a'', PInt 1)], PDict [(u ''a'', PInt 2)]]) \<longrightarrow>
      result_parser E (u ''[{"a":1},{"a":2}]'')
         = Inr (PDict [(u ''success'', PBool True),
                       (u ''data'', PList [PDict [(u ''a'', PInt 1)], PDict [(u ''a'', PInt 2)]])]))\<close>
proof (intro conjI impI)
  assume "json_loads E (clean_json (strip raw)) = Inr (PList l)"
  then show "result_parser E raw = Inr (PDict [(u ''success'', PBool True), (u ''data'', PList l)])"
    by (simp add: result_parser_def try_except_def parsed_rows_def)
next
  assume "(\<forall>c\<in>set tag. az_ignorecase c) \<and> (\<forall>c\<in>set ws. isspace c) \<and> (\<forall>c\<in>set ws'. isspace c)
        \<and> body \<noteq> [] \<and> \<not> isspace (hd body) \<and> \<not> isspace (last body)
        \<and> (ws \<noteq> [] \<or> \<not> az_ignorecase (hd body))"
  then show "clean_json (fence @ tag @ ws @ body @ ws' @ fence) = body"
    by (intro clean_json_fenced) blast+
next
  let ?s = \<open>u ''[{"a":1},{"a":2}]''\<close>
  have c: "clean_json (strip ?s) = ?s"
    by (simp add: str_eval clean_json_def sub_leading_fence_def sub_trailing_fence_def)
  assume "json_loads E ?s = Inr (PList [PDict [(u ''a'', PInt 1)], PDict [(u ''a'', PInt 2)]])"
  with c show "result_parser E ?s
         = Inr (PDict [(u ''success'', PBool True),
                       (u ''data'', PList [PDict [(u ''a'', PInt 1)], PDict [(u ''a'', PInt 2)]])])"
    by (simp add: result_parser_def try_except_def parsed_rows_def)
qed

theorem json_strategy_witness:
  \<open>clean_json (strip (u ''```JSON\<newline>[]\<newline>```'')) = u ''[]''
   \<and> result_parser (sample_env (Inr state_two_rows) (Inr None)) (u ''```JSON\<newline>[]\<newline>```'')
       = Inr (PDict [(u ''success'', PBool True), (u ''data'', PList [])])
   \<and> result_parser (sample_env (Inr state_two_rows) (Inr None)) (u ''[{"a":1},{"a":2}]'')
       = Inr (PDict [(u ''success'', PBool True),
                     (u ''data'', PList [PDict [(u ''a'', PInt 1)], PDict [(u ''a'', PInt 2)]])])\<close>
proof -
  let ?E = "sample_env (Inr state_two_rows) (Inr None) :: (int, unit) env"
  let ?raw = "u ''```JSON\<newline>[]\<newline>```''"
  have s: "strip ?raw = fence @ u ''JSON'' @ [10] @ u ''[]'' @ [10] @ fence"
    by (simp add: str_eval)
  have h: "(\<forall>c\<in>set (u ''JSON''). az_ignorecase c) \<and> (\<forall>c\<in>set [10]. isspace c)
        \<and> (\<forall>c\<in>set [10]. isspace c)
        \<and> u ''[]'' \<noteq> [] \<and> \<not> isspace (hd (u ''[]'')) \<and> \<not> isspace (last (u ''[]''))
        \<and> ([10] \<noteq> [] \<or> \<not> az_ignorecase (hd (u ''[]'')))"
    by (simp add: u_def isspace_def az_ignorecase_def)
  note t = json_strategy [of ?E ?raw "[]" "u ''JSON''" "[10]" "[10]" "u ''[]''"]
  from t h s have c: "clean_json (strip ?raw) = u ''[]''"
    by simp
  have j1: "json_loads ?E (u ''[]'') = Inr (PList [])"
    by (simp add: sample_env_def sample_json_loads_def u_def)
  have j2: \<open>json_loads ?E (u ''[{"a":1},{"a":2}]'')
         = Inr (PList [PDict [(u ''a'', PInt 1)], PDict [(u ''a'', PInt 2)]])\<close>
    by (simp add: sample_env_def sample_json_loads_def u_def)
  from t c j1 j2 show ?thesis
    by simp
qed

text \<open>
  Claim C5.  For the four lines \<open>a|b\<close>, a separator line (any line with a pipe), \<open>1|x\<close>
  and \<open>2|y\<close>, which are not JSON, the Result Parser returns \<open>success = True\<close> and
  exactly two rows: under \<open>a\<close> the floats that \<open>float\<close> returns for \<open>1\<close> and \<open>2\<close>,
  under \<open>b\<close> the strings \<open>x\<close> and \<open>y\<close>, for which \<open>float\<close> raises.
\<close>

theorem markdown_table_example:
  assumes "sublist (u ''|'') sep" and "10 \<notin> set sep"
    and "json_loads E (u ''a|b'' @ [10] @ sep @ [10] @ u ''1|x'' @ [10] @ u ''2|y'')
           = Inl (Exception m)"
    and "float_of_str E (u ''1'') = Some f1" and "float_of_str E (u ''2'') = Some f2"
    and "float_of_str E (u ''x'') = None" and "float_of_str E (u ''y'') = None"
  shows "result_parser E (u ''a|b'' @ [10] @ sep @ [10] @ u ''1|x'' @ [10] @ u ''2|y'')
           = Inr (PDict [(u ''success'', PBool True),
                         (u ''data'', PList [PDict [(u ''a'', PFloat f1), (u ''b'', PStr (u ''x''))],
                                             PDict [(u ''a'', PFloat f2), (u ''b'', PStr (u ''y''))]])])"
proof -
  define A B C where "A = u ''a|b''" and "B = u ''1|x''" and "C = u ''2|y''"
  let ?raw = "A @ [10] @ sep @ [10] @ B @ [10] @ C"
  have A: "A = [97, 124, 98]" and B: "B = [49, 124, 120]" and C: "C = [50, 124, 121]"
    by (simp_all add: A_def B_def C_def u_def)
  have st: "strip ?raw = ?raw"
    by (rule strip_fixed) (simp add: A C isspace_def)
  have cl: "clean_json ?raw = ?raw"
    by (simp add: clean_json_def sub_leading_fence_def sub_trailing_fence_def
        suffix_to_prefix fence_def u_def A C)
  have lines: "split [10] ?raw = [A, sep, B, C]"
    by (rule split_four_lines) (simp_all add: A B C assms(2))
  have bar: "124 \<in> set sep"
    using assms(1) by (simp add: u_def sublist_single)
  have "\<not> isspace 124"
    by (simp add: isspace_def)
  with bar have sepne: "strip sep \<noteq> []"
    unfolding strip_Nil_iff by blast
  have keep: "filter (\<lambda>line. sublist (u ''|'') line \<and> strip line \<noteq> []) [A, sep, B, C]
                = [A, sep, B, C]"
    using assms(1) sepne by (simp add: A B C str_eval)
  have tl: "map strip [A, sep, B, C] = [A, strip sep, B, C]"
    by (simp add: A B C str_eval)
  have headers: "map (replace [92, 95] (u ''_'')) (split_cells A) = [u ''a'', u ''b'']"
    by (simp add: A split_cells_def str_eval)
  have rows: "table_rows E [u ''a'', u ''b''] [B, C]
                = [PDict [(u ''a'', PFloat f1), (u ''b'', PStr (u ''x''))],
                   PDict [(u ''a'', PFloat f2), (u ''b'', PStr (u ''y''))]]"
    using assms(4-7)
    by (simp add: B C split_cells_def row_dict_def cell_value_def str_eval)
  have md: "markdown_table E ?raw
              = Some [PDict [(u ''a'', PFloat f1), (u ''b'', PStr (u ''x''))],
                      PDict [(u ''a'', PFloat f2), (u ''b'', PStr (u ''y''))]]"
  proof -
    have d: "drop 2 [A, strip sep, B, C] = [B, C]" and n: "[A, strip sep, B, C] ! 0 = A"
      by simp_all
    show ?thesis
      unfolding markdown_table_def lines keep tl Let_def n d headers rows
      by simp
  qed
  have "result_parser E ?raw
           = Inr (parsed_rows [PDict [(u ''a'', PFloat f1), (u ''b'', PStr (u ''x''))],
                               PDict [(u ''a'', PFloat f2), (u ''b'', PStr (u ''y''))]])"
    using assms(3) unfolding result_parser_def Let_def st cl md
    by (simp add: try_except_def A_def B_def C_def)
  then show ?thesis
    by (simp add: parsed_rows_def A_def B_def C_def)
qed


theorem markdown_table_example_witness:
  "sublist (u ''|'') (u ''---|---'')
   \<and> result_parser (sample_env (Inr state_two_rows) (Inr None))
       (u ''a|b'' @ [10] @ u ''---|---'' @ [10] @ u ''1|x'' @ [10] @ u ''2|y'')
     = Inr (PDict [(u ''success'', PBool True),
                   (u ''data'', PList [PDict [(u ''a'', PFloat 1), (u ''b'', PStr (u ''x''))],
                                       PDict [(u ''a'', PFloat 2), (u ''b'', PStr (u ''y''))]])])"
proof -
  let ?E = "sample_env (Inr state_two_rows) (Inr None) :: (int, unit) env"
  have 1: "sublist (u ''|'') (u ''---|---'')"
    by (simp add: str_eval)
  have 2: "10 \<notin> set (u ''---|---'')"
    by (simp add: u_def)
  have 3: "json_loads ?E (u ''a|b'' @ [10] @ u ''---|---'' @ [10] @ u ''1|x'' @ [10] @ u ''2|y'')
             = Inl (Exception (Inr (u ''Expecting value: line 1 column 1 (char 0)'')))"
    by (simp add: sample_env_def sample_json_loads_def u_def)
  have 4: "float_of_str ?E (u ''1'') = Some 1" and 5: "float_of_str ?E (u ''2'') = Some 2"
    and 6: "float_of_str ?E (u ''x'') = None" and 7: "float_of_str ?E (u ''y'') = None"
    by (simp_all add: sample_env_def sample_float_def u_def)
  from markdown_table_example [OF 1 2 3 4 5 6 7] 1 show ?thesis
    by blast
qed

end
